theory Spec2Isabelle
  imports Main "HOL-Library.Char_ord" "HOL-Library.List_Lexorder"
begin

section \<open>Data model\<close>

text \<open>
  Go strings are byte sequences; \<^typ>\<open>string\<close> is a list of 8-bit characters, so a Go
  string is modelled by the list of its bytes. With \<open>Char_ord\<close> and \<open>List_Lexorder\<close>
  the order on \<^typ>\<open>string\<close> is the byte-wise lexicographic order, which is the order
  of Go's comparison of strings and therefore of \<^verbatim>\<open>sort.Strings\<close>.

  A Go map is a finite partial function. \<^verbatim>\<open>Discovered\<close> and \<^verbatim>\<open>Impossible\<close> are
  slices, modelled as lists.
\<close>

record Element =
  Name :: string
  Category :: string

record GameState =
  Elements :: "string \<rightharpoonup> Element"
  Recipes :: "string \<rightharpoonup> string"
  Discovered :: "string list"
  Impossible :: "string list"

text \<open>
  \<^verbatim>\<open>gs.Elements[k]\<close> read as a value: Go yields the zero \<^verbatim>\<open>Element\<close> for an
  absent key.
\<close>

definition zeroElement :: Element where
  "zeroElement = \<lparr>Name = '''', Category = ''''\<rparr>"

definition elementAt :: "GameState \<Rightarrow> string \<Rightarrow> Element" where
  "elementAt gs k = (case Elements gs k of None \<Rightarrow> zeroElement | Some e \<Rightarrow> e)"

section \<open>Discovery ledger\<close>

definition isDiscovered :: "GameState \<Rightarrow> string \<Rightarrow> bool" where
  "isDiscovered gs element \<longleftrightarrow> element \<in> set (Discovered gs)"

definition addDiscovered :: "GameState \<Rightarrow> string \<Rightarrow> GameState" where
  "addDiscovered gs element =
     (if \<not> isDiscovered gs element
      then gs\<lparr>Discovered := Discovered gs @ [element]\<rparr>
      else gs)"

section \<open>Identifier normalisation\<close>

text \<open>
  \<^verbatim>\<open>strings.TrimSpace\<close> and \<^verbatim>\<open>strings.ToLower\<close> of the Go library, as the library
  writes them. Both scan the bytes of the string and handle an all-ASCII string (every
  byte below \<^verbatim>\<open>utf8.RuneSelf\<close>, that is \<open>0x80\<close>) themselves; on a byte from
  \<open>0x80\<close> on they hand over to the functions that decode UTF-8 and consult the
  Unicode tables: \<^verbatim>\<open>TrimFunc(s, unicode.IsSpace)\<close>,
  \<^verbatim>\<open>TrimRightFunc(s, unicode.IsSpace)\<close> and \<^verbatim>\<open>Map(unicode.ToLower, s)\<close>. These three
  are not code of the program and their tables are not reproduced: they are taken as
  parameters, the fields of \<open>Unicode\<close>, so that every statement below holds for every
  input string and whatever these three functions compute.
\<close>

record Unicode =
  trimFunc :: "string \<Rightarrow> string"
  trimRightFunc :: "string \<Rightarrow> string"
  mapToLower :: "string \<Rightarrow> string"

definition isASCII :: "string \<Rightarrow> bool" where
  "isASCII s \<longleftrightarrow> list_all (\<lambda>c. (of_char c :: nat) < 128) s"

text \<open>The table \<^verbatim>\<open>asciiSpace\<close>: tab, line feed, vertical tab, form feed, carriage return, space.\<close>

definition isSpaceByte :: "char \<Rightarrow> bool" where
  "isSpaceByte c \<longleftrightarrow>
     c = CHR 0x09 \<or> c = CHR 0x0A \<or> c = CHR 0x0B \<or> c = CHR 0x0C \<or> c = CHR 0x0D \<or> c = CHR '' ''"

text \<open>
  \<^verbatim>\<open>TrimSpace\<close>: the first loop advances \<^verbatim>\<open>start\<close> over ASCII white space; at a byte
  from \<open>0x80\<close> on it returns \<^verbatim>\<open>TrimFunc(s[start:], unicode.IsSpace)\<close>. The second loop
  moves \<^verbatim>\<open>stop\<close> back over ASCII white space; at a byte from \<open>0x80\<close> on it returns
  \<^verbatim>\<open>TrimRightFunc(s[start:stop], unicode.IsSpace)\<close>. Otherwise the result is
  \<^verbatim>\<open>s[start:stop]\<close>.
\<close>

definition TrimSpace :: "Unicode \<Rightarrow> string \<Rightarrow> string" where
  "TrimSpace U s =
     (let fromStart = dropWhile isSpaceByte s
      in case fromStart of
           [] \<Rightarrow> []
         | c # _ \<Rightarrow>
             if \<not> (of_char c :: nat) < 128 then trimFunc U fromStart
             else (let back = dropWhile isSpaceByte (rev fromStart)
                   in case back of
                        [] \<Rightarrow> []
                      | d # _ \<Rightarrow>
                          if \<not> (of_char d :: nat) < 128 then trimRightFunc U (rev back)
                          else rev back))"

definition isUpperByte :: "char \<Rightarrow> bool" where
  "isUpperByte c \<longleftrightarrow> (65::nat) \<le> of_char c \<and> (of_char c :: nat) \<le> 90"

definition toLowerByte :: "char \<Rightarrow> char" where
  "toLowerByte c = (if isUpperByte c then char_of ((of_char c :: nat) + 32) else c)"

text \<open>
  \<^verbatim>\<open>ToLower\<close>: an all-ASCII string has \<open>'a' - 'A'\<close> added to its bytes \<open>'A'\<close> to
  \<open>'Z'\<close> (and is returned as it is when it has none); any other string is
  \<^verbatim>\<open>Map(unicode.ToLower, s)\<close>.
\<close>

definition ToLower :: "Unicode \<Rightarrow> string \<Rightarrow> string" where
  "ToLower U s = (if isASCII s then map toLowerByte s else mapToLower U s)"

text \<open>
  \<^verbatim>\<open>strings.ReplaceAll(s, old, new)\<close> for one-byte \<open>old\<close> and \<open>new\<close>: the library
  compares bytes, so this is the replacement byte by byte on every string.
\<close>

definition ReplaceAll :: "string \<Rightarrow> char \<Rightarrow> char \<Rightarrow> string" where
  "ReplaceAll s old new = map (\<lambda>c. if c = old then new else c) s"

text \<open>The function of the current program (the one with the API and developer modes).\<close>

definition normalizeElementName :: "Unicode \<Rightarrow> string \<Rightarrow> string" where
  "normalizeElementName U name =
     (let name1 = ToLower U (TrimSpace U name)
      in ReplaceAll name1 (CHR '' '') (CHR ''-''))"

text \<open>
  The function of the same name in \<^verbatim>\<open>src/main.go\<close> (the program without the API
  mode) and in the terminal-only program: no replacement of spaces.
\<close>

definition normalizeElementName_main :: "Unicode \<Rightarrow> string \<Rightarrow> string" where
  "normalizeElementName_main U name = ToLower U (TrimSpace U name)"

section \<open>Combination resolver\<close>

text \<open>The key expression \<^verbatim>\<open>x + "+" + y\<close>, which the source writes out at each use.\<close>

definition comboKey :: "string \<Rightarrow> string \<Rightarrow> string" where
  "comboKey x y = x @ ''+'' @ y"

text \<open>
  \<^verbatim>\<open>combineElements\<close> mutates the receiver and returns the result identifier;
  the model returns the new state together with that identifier. The empty string is
  the "no recipe" value of the source.
\<close>

definition combineElements :: "GameState \<Rightarrow> string \<Rightarrow> string \<Rightarrow> GameState \<times> string" where
  "combineElements gs elem1 elem2 =
     (let combo1 = comboKey elem1 elem2;
          combo2 = comboKey elem2 elem1
      in case Recipes gs combo1 of
           Some result \<Rightarrow> (addDiscovered gs result, result)
         | None \<Rightarrow>
             (case Recipes gs combo2 of
                Some result \<Rightarrow> (addDiscovered gs result, result)
              | None \<Rightarrow> (gs, '''')))"

text \<open>
  The combine action of the terminal front-end (\<^verbatim>\<open>main\<close>, \<^verbatim>\<open>case "1"\<close>), from
  the point where both identifiers have been read and normalised: the discovery gate,
  then \<^verbatim>\<open>combineElements\<close>, then the message and the save. The three messages
  printed by the source are
  \<^item> \<open>NotDiscoveredMsg\<close>: "You haven't discovered one or both elements yet!",
  \<^item> \<open>CreatedMsg n\<close>: "You created: n!",
  \<^item> \<open>CannotCombineMsg\<close>: "These elements cannot be combined.".
  The third component is the list handed to \<^verbatim>\<open>saveLocalProgress\<close> when the source
  calls it, and \<open>None\<close> when it does not.
\<close>

datatype message = NotDiscoveredMsg | CreatedMsg string | CannotCombineMsg

definition mainCombine ::
    "GameState \<Rightarrow> string \<Rightarrow> string \<Rightarrow> GameState \<times> message \<times> string list option" where
  "mainCombine gs elem1 elem2 =
     (if \<not> isDiscovered gs elem1 \<or> \<not> isDiscovered gs elem2
      then (gs, NotDiscoveredMsg, None)
      else (case combineElements gs elem1 elem2 of
              (gs', result) \<Rightarrow>
                if result \<noteq> ''''
                then (gs', CreatedMsg (Name (elementAt gs' result)), Some (Discovered gs'))
                else (gs', CannotCombineMsg, None)))"

section \<open>Untried-combination enumerator\<close>

text \<open>
  \<^verbatim>\<open>strings.Split(s, sep)\<close> for a one-byte separator: the pieces between the
  occurrences of the separator, one more piece than there are occurrences.
\<close>

fun Split :: "string \<Rightarrow> char \<Rightarrow> string list" where
  "Split [] sep = [[]]"
| "Split (c # cs) sep =
     (if c = sep then [] # Split cs sep
      else (case Split cs sep of
              [] \<Rightarrow> [[c]]
            | p # ps \<Rightarrow> (c # p) # ps))"

text \<open>
  \<^verbatim>\<open>isImpossible\<close> indexes the pieces at 1 and 0; Go panics when the index is out
  of range, which is the value \<open>None\<close> here.
\<close>

definition isImpossible :: "GameState \<Rightarrow> string \<Rightarrow> bool option" where
  "isImpossible gs combo =
     (let elements = Split combo (CHR ''+'')
      in if length elements < 2 then None
         else (let reverse = comboKey (elements ! 1) (elements ! 0)
               in Some (combo \<in> set (Impossible gs) \<or> reverse \<in> set (Impossible gs))))"

text \<open>\<^verbatim>\<open>fmt.Sprintf("%s + %s", gs.Elements[elem1].Name, gs.Elements[elem2].Name)\<close>\<close>

definition comboLine :: "GameState \<Rightarrow> string \<Rightarrow> string \<Rightarrow> string" where
  "comboLine gs elem1 elem2 = Name (elementAt gs elem1) @ '' + '' @ Name (elementAt gs elem2)"

text \<open>
  The inner loop \<^verbatim>\<open>for j := i; j < len(allElements); j++\<close> runs over the elements
  \<^verbatim>\<open>allElements[i:]\<close>; it is the recursion over that suffix, with the slice
  \<^verbatim>\<open>combos\<close> as accumulator. The outer loop passes the suffix that starts at its own
  element.
\<close>

fun innerLoop :: "GameState \<Rightarrow> string \<Rightarrow> string list \<Rightarrow> string list \<Rightarrow> string list option" where
  "innerLoop gs elem1 [] combos = Some combos"
| "innerLoop gs elem1 (elem2 # rest) combos =
     (let combo1 = comboKey elem1 elem2;
          combo2 = comboKey elem2 elem1
      in if Recipes gs combo1 \<noteq> None then innerLoop gs elem1 rest combos
         else if Recipes gs combo2 \<noteq> None then innerLoop gs elem1 rest combos
         else (case isImpossible gs combo1 of
                 None \<Rightarrow> None
               | Some True \<Rightarrow> innerLoop gs elem1 rest combos
               | Some False \<Rightarrow> innerLoop gs elem1 rest (combos @ [comboLine gs elem1 elem2])))"

fun outerLoop :: "GameState \<Rightarrow> string list \<Rightarrow> string list \<Rightarrow> string list option" where
  "outerLoop gs [] combos = Some combos"
| "outerLoop gs (elem1 # rest) combos =
     (case innerLoop gs elem1 (elem1 # rest) combos of
        None \<Rightarrow> None
      | Some combos' \<Rightarrow> outerLoop gs rest combos')"

text \<open>
  The keys of the map, collected and passed to \<^verbatim>\<open>sort.Strings\<close>: the sorted list of
  the (distinct) keys.
\<close>

definition allElements :: "GameState \<Rightarrow> string list" where
  "allElements gs = sorted_list_of_set (dom (Elements gs))"

definition getUntriedCombos :: "GameState \<Rightarrow> string list option" where
  "getUntriedCombos gs = outerLoop gs (allElements gs) []"

text \<open>
  The enumeration as the specification words it: over the sorted identifier list, every
  pair of positions \<open>i \<le> j\<close> in order, kept when no recipe and no impossibility is
  recorded in either direction, rendered with the display names.
\<close>

definition untriedCombinations_spec :: "GameState \<Rightarrow> string list" where
  "untriedCombinations_spec gs =
     (let ids = sorted_list_of_set (dom (Elements gs))
      in [Name (elementAt gs (ids ! i)) @ '' + '' @ Name (elementAt gs (ids ! j)).
            i \<leftarrow> [0 ..< length ids], j \<leftarrow> [i ..< length ids],
            comboKey (ids ! i) (ids ! j) \<notin> dom (Recipes gs),
            comboKey (ids ! j) (ids ! i) \<notin> dom (Recipes gs),
            comboKey (ids ! i) (ids ! j) \<notin> set (Impossible gs),
            comboKey (ids ! j) (ids ! i) \<notin> set (Impossible gs)])"

section \<open>Loading\<close>

text \<open>
  What the loaders read from outside the program. A catalogue document is \<open>Missing\<close>
  when reading it fails, \<open>Malformed\<close> when \<^verbatim>\<open>json.Unmarshal\<close> returns an error, and
  \<open>Loaded v\<close> when both succeed and \<open>v\<close> is the decoded value. A progress file is
  \<open>ReadFailed\<close> when \<^verbatim>\<open>os.ReadFile\<close> returns an error (missing or unreadable file), and
  \<open>ReadOk l\<close> when it was read and \<open>l\<close> is what \<^verbatim>\<open>json.Unmarshal\<close> left in
  \<^verbatim>\<open>Discovered\<close> (the loaders discard its error; \<open>l\<close> is empty when nothing was
  decoded). The path fields tell whether \<^verbatim>\<open>getProgressFilePath\<close> and
  \<^verbatim>\<open>getTelegramUserProgressPath\<close> returned a path.
\<close>

datatype 'a source = Missing | Malformed | Loaded 'a

datatype progressRead = ReadFailed | ReadOk "string list"

record Env =
  fileElements :: "(string \<rightharpoonup> Element) source"
  fileRecipes :: "(string \<rightharpoonup> string) source"
  fileImpossible :: "string list source"
  embeddedElements :: "(string \<rightharpoonup> Element) source"
  embeddedRecipes :: "(string \<rightharpoonup> string) source"
  embeddedImpossible :: "string list source"
  progressPathOk :: bool
  progressFile :: progressRead
  telegramPathOk :: "int \<Rightarrow> bool"
  telegramFile :: "int \<Rightarrow> progressRead"

text \<open>
  The errors returned by the loaders, by their message: "failed to load elements",
  "failed to parse elements", "failed to load recipes", "failed to parse recipes",
  "failed to load impossible", "failed to parse impossible", "failed to load impossible
  elements", and the error of the path functions.
\<close>

datatype loadError =
    FailedToLoadElements | FailedToParseElements
  | FailedToLoadRecipes | FailedToParseRecipes
  | FailedToLoadImpossible | FailedToParseImpossible
  | FailedToLoadImpossibleElements
  | PathError

definition bootstrap :: "string list" where
  "bootstrap = [''water'', ''fire'', ''earth'', ''wind'']"

text \<open>
  The slice \<^verbatim>\<open>Discovered\<close> after
  \<^verbatim>\<open>data, err := os.ReadFile(path); if err == nil { json.Unmarshal(data, &gameState.Discovered) }\<close>,
  starting from the empty slice.
\<close>

definition readDiscovered :: "progressRead \<Rightarrow> string list" where
  "readDiscovered p = (case p of ReadFailed \<Rightarrow> [] | ReadOk l \<Rightarrow> l)"

text \<open>The \<^verbatim>\<open>dev\<close> branch of \<^verbatim>\<open>loadGameState\<close>: the three files of the working directory.\<close>

definition loadCatalogDev ::
    "Env \<Rightarrow> loadError + (string \<rightharpoonup> Element) \<times> (string \<rightharpoonup> string) \<times> string list" where
  "loadCatalogDev env =
     (case fileElements env of
        Missing \<Rightarrow> Inl FailedToLoadElements
      | Malformed \<Rightarrow> Inl FailedToParseElements
      | Loaded els \<Rightarrow>
          (case fileRecipes env of
             Missing \<Rightarrow> Inl FailedToLoadRecipes
           | Malformed \<Rightarrow> Inl FailedToParseRecipes
           | Loaded recs \<Rightarrow>
               (case fileImpossible env of
                  Missing \<Rightarrow> Inl FailedToLoadImpossible
                | Malformed \<Rightarrow> Inl FailedToParseImpossible
                | Loaded imp \<Rightarrow> Inr (els, recs, imp))))"

text \<open>The other branch: the embedded documents, through \<^verbatim>\<open>loadEmbeddedJSON\<close>.\<close>

definition loadCatalogEmbedded ::
    "Env \<Rightarrow> loadError + (string \<rightharpoonup> Element) \<times> (string \<rightharpoonup> string) \<times> string list" where
  "loadCatalogEmbedded env =
     (case embeddedElements env of
        Loaded els \<Rightarrow>
          (case embeddedRecipes env of
             Loaded recs \<Rightarrow>
               (case embeddedImpossible env of
                  Loaded imp \<Rightarrow> Inr (els, recs, imp)
                | _ \<Rightarrow> Inl FailedToLoadImpossibleElements)
           | _ \<Rightarrow> Inl FailedToLoadRecipes)
      | _ \<Rightarrow> Inl FailedToLoadElements)"

text \<open>
  \<^verbatim>\<open>loadGameState\<close> returns the state, or the error and no state. The second
  component of a success is the list handed to \<^verbatim>\<open>saveLocalProgress\<close> when the source
  calls it (its result is discarded there).
\<close>

definition loadGameState :: "Env \<Rightarrow> bool \<Rightarrow> loadError + GameState \<times> string list option" where
  "loadGameState env dev =
     (case (if dev then loadCatalogDev env else loadCatalogEmbedded env) of
        Inl e \<Rightarrow> Inl e
      | Inr (els, recs, imp) \<Rightarrow>
          if \<not> progressPathOk env then Inl PathError
          else (let discovered = readDiscovered (progressFile env)
                in if length discovered = 0
                   then Inr (\<lparr>Elements = els, Recipes = recs,
                              Discovered = bootstrap, Impossible = imp\<rparr>, Some bootstrap)
                   else Inr (\<lparr>Elements = els, Recipes = recs,
                              Discovered = discovered, Impossible = imp\<rparr>, None)))"

text \<open>
  \<^verbatim>\<open>getUserGameState\<close> of the chat front-end: the cache \<^verbatim>\<open>tb.gameStates\<close> is passed
  in and returned; the third component is the list handed to
  \<^verbatim>\<open>saveTelegramProgress\<close>, if any.
\<close>

definition getUserGameState ::
    "Env \<Rightarrow> (int \<rightharpoonup> GameState) \<Rightarrow> int
       \<Rightarrow> (int \<rightharpoonup> GameState) \<times> (loadError + GameState) \<times> string list option" where
  "getUserGameState env gameStates userID =
     (case gameStates userID of
        Some gameState \<Rightarrow> (gameStates, Inr gameState, None)
      | None \<Rightarrow>
          (case embeddedElements env of
             Loaded els \<Rightarrow>
               (case embeddedRecipes env of
                  Loaded recs \<Rightarrow>
                    if \<not> telegramPathOk env userID then (gameStates, Inl PathError, None)
                    else (let discovered = readDiscovered (telegramFile env userID);
                              seeded = (length discovered = 0);
                              gameState = \<lparr>Elements = els, Recipes = recs,
                                 Discovered = (if seeded then bootstrap else discovered),
                                 Impossible = []\<rparr>
                          in (gameStates(userID \<mapsto> gameState), Inr gameState,
                              if seeded then Some bootstrap else None))
                | _ \<Rightarrow> (gameStates, Inl FailedToLoadRecipes, None))
           | _ \<Rightarrow> (gameStates, Inl FailedToLoadElements, None)))"

section \<open>The HTTP combine handler\<close>

text \<open>
  A request as the handler reads it: the method and the query parameters
  (\<^verbatim>\<open>r.URL.Query().Get(k)\<close> is the empty string for an absent parameter). The answer
  is either the status 405 written by \<^verbatim>\<open>http.Error\<close> or the encoded
  \<^verbatim>\<open>CombineResponse\<close>. The handler holds the pointer to the game state; the model
  returns the state after the call beside the answer. The first argument is the
  parameter of the normalisation.
\<close>

record Request =
  Method :: string
  Query :: "string \<rightharpoonup> string"

record CombineResponse =
  Success :: bool
  Result :: string
  Error :: string

datatype response = MethodNotAllowed | Body CombineResponse

definition queryGet :: "Request \<Rightarrow> string \<Rightarrow> string" where
  "queryGet r k = (case Query r k of None \<Rightarrow> '''' | Some v \<Rightarrow> v)"

definition handleCombineAPI :: "Unicode \<Rightarrow> GameState \<Rightarrow> Request \<Rightarrow> GameState \<times> response" where
  "handleCombineAPI U gameState r =
     (if Method r \<noteq> ''GET'' then (gameState, MethodNotAllowed)
      else (let elem1 = normalizeElementName U (queryGet r ''element-one'');
                elem2 = normalizeElementName U (queryGet r ''element-two'');
                combo1 = comboKey elem1 elem2;
                combo2 = comboKey elem2 elem1
            in case Recipes gameState combo1 of
                 Some result \<Rightarrow>
                   (gameState, Body \<lparr>Success = True,
                      Result = Name (elementAt gameState result), Error = ''''\<rparr>)
               | None \<Rightarrow>
                   (case Recipes gameState combo2 of
                      Some result \<Rightarrow>
                        (gameState, Body \<lparr>Success = True,
                           Result = Name (elementAt gameState result), Error = ''''\<rparr>)
                    | None \<Rightarrow>
                        (gameState, Body \<lparr>Success = False, Result = '''',
                           Error = ''These elements cannot be combined''\<rparr>))))"

section \<open>Example states\<close>

definition steamState :: GameState where
  "steamState =
     \<lparr>Elements = [''water'' \<mapsto> \<lparr>Name = ''Water'', Category = ''Primordial''\<rparr>,
                  ''fire'' \<mapsto> \<lparr>Name = ''Fire'', Category = ''Primordial''\<rparr>,
                  ''steam'' \<mapsto> \<lparr>Name = ''Steam'', Category = ''Atmospheric''\<rparr>],
      Recipes = [''water+fire'' \<mapsto> ''steam''],
      Discovered = [''water'', ''fire'', ''earth'', ''wind''],
      Impossible = []\<rparr>"

text \<open>A recipe table that stores both directions of one pair, with different results.\<close>

definition conflictState :: GameState where
  "conflictState =
     \<lparr>Elements = Map.empty,
      Recipes = [''a+b'' \<mapsto> ''x'', ''b+a'' \<mapsto> ''y''],
      Discovered = [''a'', ''b''],
      Impossible = []\<rparr>"

text \<open>The catalogue of the specification's example: A, B, C, recipe A+B=D, impossibility A+C.\<close>

definition abcState :: GameState where
  "abcState =
     \<lparr>Elements = [''A'' \<mapsto> \<lparr>Name = ''Air'', Category = ''''\<rparr>,
                  ''B'' \<mapsto> \<lparr>Name = ''Bog'', Category = ''''\<rparr>,
                  ''C'' \<mapsto> \<lparr>Name = ''Clay'', Category = ''''\<rparr>],
      Recipes = [''A+B'' \<mapsto> ''D''],
      Discovered = [],
      Impossible = [''A+C'']\<rparr>"

text \<open>A catalogue with an identifier that contains the key separator.\<close>

definition plusState :: GameState where
  "plusState =
     \<lparr>Elements = [''a+b'' \<mapsto> \<lparr>Name = ''AB'', Category = ''''\<rparr>,
                  ''c'' \<mapsto> \<lparr>Name = ''C'', Category = ''''\<rparr>],
      Recipes = Map.empty,
      Discovered = [],
      Impossible = [''c+a+b'']\<rparr>"

definition okEnv :: Env where
  "okEnv =
     \<lparr>fileElements = Loaded (Elements steamState),
      fileRecipes = Loaded (Recipes steamState),
      fileImpossible = Loaded [],
      embeddedElements = Loaded (Elements steamState),
      embeddedRecipes = Loaded (Recipes steamState),
      embeddedImpossible = Loaded [],
      progressPathOk = True,
      progressFile = ReadFailed,
      telegramPathOk = (\<lambda>u. True),
      telegramFile = (\<lambda>u. ReadFailed)\<rparr>"

text \<open>The same outside world, with a progress file that holds one derived element only.\<close>

definition steamOnlyEnv :: Env where
  "steamOnlyEnv = okEnv\<lparr>progressFile := ReadOk [''steam'']\<rparr>"

text \<open>The same outside world, where the configuration directory cannot be resolved.\<close>

definition noPathEnv :: Env where
  "noPathEnv = okEnv\<lparr>progressPathOk := False\<rparr>"

definition waterFireRequest :: Request where
  "waterFireRequest =
     \<lparr>Method = ''GET'',
      Query = [''element-one'' \<mapsto> '' Water'', ''element-two'' \<mapsto> ''FIRE '']\<rparr>"

text \<open>
  The example strings below are ASCII, and on an ASCII string neither \<open>TrimSpace\<close> nor
  \<open>ToLower\<close> calls a field of \<open>Unicode\<close> (lemmas \<open>TrimSpace_ASCII\<close> and
  \<open>ToLower_ASCII\<close>): any value serves to evaluate them, here the one whose functions
  return their argument.
\<close>

definition anyUnicode :: Unicode where
  "anyUnicode = \<lparr>trimFunc = (\<lambda>s. s), trimRightFunc = (\<lambda>s. s), mapToLower = (\<lambda>s. s)\<rparr>"

section \<open>Notions used in the statements and proofs\<close>

text \<open>Whether every catalogue document that \<^verbatim>\<open>loadGameState\<close> reads in a mode is there and well-formed.\<close>

definition isLoaded :: "'a source \<Rightarrow> bool" where
  "isLoaded src = (case src of Loaded v \<Rightarrow> True | _ \<Rightarrow> False)"

definition catalogLoaded :: "Env \<Rightarrow> bool \<Rightarrow> bool" where
  "catalogLoaded env dev =
     (if dev then isLoaded (fileElements env) \<and> isLoaded (fileRecipes env) \<and> isLoaded (fileImpossible env)
      else isLoaded (embeddedElements env) \<and> isLoaded (embeddedRecipes env)
           \<and> isLoaded (embeddedImpossible env))"

text \<open>The condition under which the enumerator keeps a pair, and what it then appends.\<close>

definition untried :: "GameState \<Rightarrow> string \<Rightarrow> string \<Rightarrow> bool" where
  "untried gs x y \<longleftrightarrow>
     comboKey x y \<notin> dom (Recipes gs) \<and> comboKey y x \<notin> dom (Recipes gs) \<and>
     comboKey x y \<notin> set (Impossible gs) \<and> comboKey y x \<notin> set (Impossible gs)"

definition emit :: "GameState \<Rightarrow> string \<Rightarrow> string \<Rightarrow> string list" where
  "emit gs x y = (if untried gs x y then [comboLine gs x y] else [])"

text \<open>The pairs of a list with its own suffixes, row by row.\<close>

fun triangle :: "('a \<Rightarrow> 'a \<Rightarrow> 'b list) \<Rightarrow> 'a list \<Rightarrow> 'b list" where
  "triangle g [] = []"
| "triangle g (x # xs) = concat (map (g x) (x # xs)) @ triangle g xs"

text \<open>What \<open>TrimSpace\<close> returns on an ASCII string: the string without the white-space bytes at its ends.\<close>

definition trimASCII :: "string \<Rightarrow> string" where
  "trimASCII s = rev (dropWhile isSpaceByte (rev (dropWhile isSpaceByte s)))"

text \<open>The byte map of the current normalisation on a trimmed ASCII string.\<close>

definition canonByte :: "char \<Rightarrow> char" where
  "canonByte c = (if c = CHR '' '' then CHR ''-'' else toLowerByte c)"

section \<open>Properties of the ledger and the resolver\<close>

lemma isDiscovered_addDiscovered: "isDiscovered (addDiscovered gs e) e"
  by (simp add: addDiscovered_def isDiscovered_def)

lemma addDiscovered_known: "isDiscovered gs e \<Longrightarrow> addDiscovered gs e = gs"
  by (simp add: addDiscovered_def)

lemma Recipes_addDiscovered: "Recipes (addDiscovered gs e) = Recipes gs"
  by (simp add: addDiscovered_def)

lemma distinct_addDiscovered:
  "distinct (Discovered gs) \<Longrightarrow> distinct (Discovered (addDiscovered gs e))"
  by (simp add: addDiscovered_def isDiscovered_def)

lemma length_addDiscovered:
  "length (Discovered (addDiscovered gs e)) \<le> Suc (length (Discovered gs))"
  by (simp add: addDiscovered_def)

lemma combineElements_cases:
  "combineElements gs a b =
     (case Recipes gs (comboKey a b) of
        Some r \<Rightarrow> (addDiscovered gs r, r)
      | None \<Rightarrow> (case Recipes gs (comboKey b a) of
                  Some r \<Rightarrow> (addDiscovered gs r, r)
                | None \<Rightarrow> (gs, '''')))"
  by (simp add: combineElements_def)

lemma steam_keys:
  "Recipes steamState (comboKey ''water'' ''fire'') = Some ''steam''"
  "Recipes steamState (comboKey ''fire'' ''water'') = None"
  by (simp_all add: comboKey_def steamState_def)

lemma steam_discovered:
  "isDiscovered steamState ''water''" "isDiscovered steamState ''fire''"
  "\<not> isDiscovered steamState ''steam''"
  by (simp_all add: isDiscovered_def steamState_def)

text \<open>
  C1. When the recipe table has an entry under \<open>a+b\<close> or under \<open>b+a\<close>,
  \<open>combineElements a b\<close> returns the result stored under one of these two keys (the
  entry under \<open>a+b\<close> when that key is present, the one under \<open>b+a\<close> otherwise), and
  after the call the returned identifier is discovered. The claim assumes both operands
  discovered; the resolver itself does not use that.
\<close>

theorem combineElements_recipe:
  assumes "isDiscovered gs a" and "isDiscovered gs b"
    and "comboKey a b \<in> dom (Recipes gs) \<or> comboKey b a \<in> dom (Recipes gs)"
  shows "(Recipes gs (comboKey a b) = Some (snd (combineElements gs a b))
          \<or> (Recipes gs (comboKey a b) = None
              \<and> Recipes gs (comboKey b a) = Some (snd (combineElements gs a b))))
         \<and> isDiscovered (fst (combineElements gs a b)) (snd (combineElements gs a b))"
  using assms(3)
  by (auto simp: combineElements_cases isDiscovered_addDiscovered split: option.splits)

theorem combineElements_recipe_witness:
  "isDiscovered steamState ''fire'' \<and> isDiscovered steamState ''water''
   \<and> comboKey ''water'' ''fire'' \<in> dom (Recipes steamState)
   \<and> snd (combineElements steamState ''fire'' ''water'') = ''steam''
   \<and> isDiscovered (fst (combineElements steamState ''fire'' ''water'')) ''steam''"
proof -
  have r: "comboKey ''water'' ''fire'' \<in> dom (Recipes steamState)"
    using steam_keys(1) by blast
  from combineElements_recipe [OF steam_discovered(2) steam_discovered(1) disjI2, OF r]
  have "snd (combineElements steamState ''fire'' ''water'') = ''steam''"
    and "isDiscovered (fst (combineElements steamState ''fire'' ''water''))
           (snd (combineElements steamState ''fire'' ''water''))"
    using steam_keys by auto
  with steam_discovered r show ?thesis by simp
qed

text \<open>
  The resolver has no discovery gate of its own: with the recipe stored, it returns the
  result and extends the ledger whatever the ledger holds. The gate is in the callers.
\<close>

lemma combineElements_ungated:
  "combineElements (steamState\<lparr>Discovered := []\<rparr>) ''water'' ''fire''
     = (steamState\<lparr>Discovered := [''steam'']\<rparr>, ''steam'')"
  by (simp add: combineElements_def comboKey_def steamState_def addDiscovered_def isDiscovered_def)

text \<open>
  C2. In the combine action of the terminal front-end, when at least one of the two
  identifiers is not discovered, the action ends with the rejection message (a printed
  message, after which the menu loop continues; no error is returned or raised),
  \<open>combineElements\<close> is not called, nothing is saved, and the whole state, the
  discovered list included, is unchanged.
\<close>

theorem mainCombine_undiscovered:
  assumes "\<not> isDiscovered gs a \<or> \<not> isDiscovered gs b"
  shows "mainCombine gs a b = (gs, NotDiscoveredMsg, None)
         \<and> Discovered (fst (mainCombine gs a b)) = Discovered gs"
  using assms by (simp add: mainCombine_def)

theorem mainCombine_undiscovered_witness:
  "\<not> isDiscovered steamState ''steam''
   \<and> mainCombine steamState ''water'' ''steam'' = (steamState, NotDiscoveredMsg, None)"
  using mainCombine_undiscovered [of steamState "''water''" "''steam''"] steam_discovered(3)
  by simp

text \<open>
  C4 (amended). \<open>combineElements a b\<close> and \<open>combineElements b a\<close> return the same
  value and leave the same state whenever the recipe table does not store both \<open>a+b\<close>
  and \<open>b+a\<close> with different results. When it does, each call returns the entry of
  its own first key.
\<close>

theorem combineElements_symmetric:
  assumes "Recipes gs (comboKey a b) = None \<or> Recipes gs (comboKey b a) = None
           \<or> Recipes gs (comboKey a b) = Recipes gs (comboKey b a)"
  shows "combineElements gs a b = combineElements gs b a"
  using assms by (auto simp: combineElements_cases split: option.splits)

theorem combineElements_symmetric_witness:
  "combineElements steamState ''water'' ''fire'' = combineElements steamState ''fire'' ''water''
   \<and> snd (combineElements steamState ''fire'' ''water'') = ''steam''"
  using combineElements_symmetric [of steamState "''water''" "''fire''"] steam_keys
  by (simp add: combineElements_cases)

theorem combineElements_symmetric_counterexample:
  "snd (combineElements conflictState ''a'' ''b'') = ''x''
   \<and> snd (combineElements conflictState ''b'' ''a'') = ''y''
   \<and> Discovered (fst (combineElements conflictState ''a'' ''b'')) = [''a'', ''b'', ''x'']
   \<and> Discovered (fst (combineElements conflictState ''b'' ''a'')) = [''a'', ''b'', ''y'']"
  by (simp add: combineElements_def comboKey_def conflictState_def addDiscovered_def
      isDiscovered_def)

text \<open>
  C5. Calling \<open>combineElements a b\<close> twice in a row: the second call returns what the
  first returned, and the state after the second call is the state after the first (in
  particular the discovered list is the same).
\<close>

theorem combineElements_twice:
  "snd (combineElements (fst (combineElements gs a b)) a b) = snd (combineElements gs a b)
   \<and> Discovered (fst (combineElements (fst (combineElements gs a b)) a b))
       = Discovered (fst (combineElements gs a b))
   \<and> fst (combineElements (fst (combineElements gs a b)) a b) = fst (combineElements gs a b)"
  by (auto simp: combineElements_cases Recipes_addDiscovered addDiscovered_known
      isDiscovered_addDiscovered split: option.splits)

theorem combineElements_twice_witness:
  "snd (combineElements (fst (combineElements steamState ''water'' ''fire'')) ''water'' ''fire'')
     = ''steam''
   \<and> Discovered (fst (combineElements (fst (combineElements steamState ''water'' ''fire''))
        ''water'' ''fire'')) = [''water'', ''fire'', ''earth'', ''wind'', ''steam'']"
  using combineElements_twice [of steamState "''water''" "''fire''"] steam_keys
  by (simp add: combineElements_cases addDiscovered_def isDiscovered_def steamState_def)

text \<open>
  C10. On a ledger without duplicates, \<open>addDiscovered\<close> and \<open>combineElements\<close> leave a
  ledger without duplicates, and each call lengthens the discovered list by at most one.
\<close>

theorem distinct_preserved:
  assumes "distinct (Discovered gs)"
  shows "distinct (Discovered (addDiscovered gs e))
         \<and> length (Discovered (addDiscovered gs e)) \<le> length (Discovered gs) + 1
         \<and> distinct (Discovered (fst (combineElements gs a b)))
         \<and> length (Discovered (fst (combineElements gs a b))) \<le> length (Discovered gs) + 1"
  using assms distinct_addDiscovered length_addDiscovered
  by (auto simp: combineElements_cases split: option.splits)

theorem distinct_preserved_witness:
  "distinct (Discovered steamState)
   \<and> distinct (Discovered (addDiscovered steamState ''fire''))
   \<and> length (Discovered (addDiscovered steamState ''fire'')) = 4
   \<and> distinct (Discovered (fst (combineElements steamState ''water'' ''fire'')))
   \<and> length (Discovered (fst (combineElements steamState ''water'' ''fire''))) = 5"
proof -
  have d: "distinct (Discovered steamState)"
    by (simp add: steamState_def)
  have "length (Discovered (addDiscovered steamState ''fire'')) = 4"
    and "length (Discovered (fst (combineElements steamState ''water'' ''fire''))) = 5"
    using steam_keys
    by (simp_all add: combineElements_cases addDiscovered_def isDiscovered_def steamState_def)
  with d distinct_preserved [OF d, of "''fire''" "''water''" "''fire''"] show ?thesis
    by simp
qed

section \<open>The enumerator\<close>

lemma Split_nonempty: "Split s sep \<noteq> []"
  by (induction s) (auto split: list.splits)

lemma Split_no_sep: "sep \<notin> set s \<Longrightarrow> Split s sep = [s]"
  by (induction s) auto

lemma Split_append_sep:
  "sep \<notin> set a \<Longrightarrow> Split (a @ sep # b) sep = a # Split b sep"
  by (induction a) auto

lemma Split_comboKey:
  "CHR ''+'' \<notin> set a \<Longrightarrow> CHR ''+'' \<notin> set b \<Longrightarrow> Split (comboKey a b) (CHR ''+'') = [a, b]"
  by (simp add: comboKey_def Split_append_sep Split_no_sep)

lemma isImpossible_comboKey:
  "CHR ''+'' \<notin> set a \<Longrightarrow> CHR ''+'' \<notin> set b \<Longrightarrow>
   isImpossible gs (comboKey a b) =
     Some (comboKey a b \<in> set (Impossible gs) \<or> comboKey b a \<in> set (Impossible gs))"
  by (simp add: isImpossible_def Split_comboKey)

lemma innerLoop_emit:
  "CHR ''+'' \<notin> set x \<Longrightarrow> \<forall>y \<in> set ys. CHR ''+'' \<notin> set y \<Longrightarrow>
   innerLoop gs x ys combos = Some (combos @ concat (map (emit gs x) ys))"
proof (induction ys arbitrary: combos)
  case Nil
  then show ?case by simp
next
  case (Cons y ys)
  then show ?case
    by (auto simp: isImpossible_comboKey emit_def untried_def Let_def)
qed

lemma outerLoop_triangle:
  "\<forall>y \<in> set xs. CHR ''+'' \<notin> set y \<Longrightarrow>
   outerLoop gs xs combos = Some (combos @ triangle (emit gs) xs)"
proof (induction xs arbitrary: combos)
  case Nil
  then show ?case by simp
next
  case (Cons x xs)
  then have "innerLoop gs x (x # xs) combos = Some (combos @ concat (map (emit gs x) (x # xs)))"
    by (intro innerLoop_emit) auto
  with Cons show ?case by simp
qed

lemma map_nth_Cons_row:
  "map (\<lambda>j. h ((x # xs) ! j)) [0 ..< Suc (length xs)] = map h (x # xs)"
proof -
  have "map (\<lambda>j. h ((x # xs) ! j)) [0 ..< length (x # xs)]
        = map h (map (\<lambda>j. (x # xs) ! j) [0 ..< length (x # xs)])"
    by (simp only: map_map o_def)
  also have "\<dots> = map h (x # xs)"
    by (simp only: map_nth)
  finally show ?thesis by simp
qed

lemma map_nth_Cons_shift:
  "map (\<lambda>j. h ((x # xs) ! j)) [Suc i ..< Suc n] = map (\<lambda>j. h (xs ! j)) [i ..< n]"
proof -
  have "[Suc i ..< Suc n] = map Suc [i ..< n]"
    by (simp only: map_Suc_upt)
  then show ?thesis by (simp add: o_def del: upt_Suc)
qed

lemma triangle_index:
  "triangle g xs =
     concat (map (\<lambda>i. concat (map (\<lambda>j. g (xs ! i) (xs ! j)) [i ..< length xs])) [0 ..< length xs])"
proof (induction xs)
  case Nil
  then show ?case by simp
next
  case (Cons x xs)
  let ?F = "\<lambda>i. concat (map (\<lambda>j. g ((x # xs) ! i) ((x # xs) ! j)) [i ..< length (x # xs)])"
  let ?G = "\<lambda>i. concat (map (\<lambda>j. g (xs ! i) (xs ! j)) [i ..< length xs])"
  have upt: "[0 ..< length (x # xs)] = 0 # map Suc [0 ..< length xs]"
    by (simp add: upt_conv_Cons map_Suc_upt del: upt_Suc)
  have first: "?F 0 = concat (map (g x) (x # xs))"
    using map_nth_Cons_row [of "g x" x xs] by simp
  have shift: "?F (Suc i) = ?G i" for i
    using map_nth_Cons_shift [of "g (xs ! i)" x xs i "length xs"] by simp
  have "concat (map ?F [0 ..< length (x # xs)])
        = ?F 0 @ concat (map (\<lambda>i. ?F (Suc i)) [0 ..< length xs])"
    by (simp only: upt list.map concat.simps map_map o_def)
  also have "\<dots> = concat (map (g x) (x # xs)) @ concat (map ?G [0 ..< length xs])"
    by (simp only: first shift)
  also have "\<dots> = triangle g (x # xs)"
    by (simp only: Cons.IH [symmetric] triangle.simps)
  finally show ?case by simp
qed

lemma emit_nested:
  "emit gs x y =
     (if comboKey x y \<notin> dom (Recipes gs)
      then if comboKey y x \<notin> dom (Recipes gs)
           then if comboKey x y \<notin> set (Impossible gs)
                then if comboKey y x \<notin> set (Impossible gs)
                     then [Name (elementAt gs x) @ '' + '' @ Name (elementAt gs y)]
                     else []
                else []
           else []
      else [])"
  by (simp add: emit_def untried_def comboLine_def)

lemma untriedCombinations_spec_triangle:
  "untriedCombinations_spec gs = triangle (emit gs) (allElements gs)"
  unfolding triangle_index emit_nested untriedCombinations_spec_def allElements_def Let_def
  by (rule refl)

lemma abc_allElements: "allElements abcState = [''A'', ''B'', ''C'']"
  by (simp add: allElements_def abcState_def)

lemma abc_spec:
  "untriedCombinations_spec abcState
     = [''Air + Air'', ''Bog + Bog'', ''Bog + Clay'', ''Clay + Clay'']"
  using abc_allElements
  by (simp add: untriedCombinations_spec_def allElements_def upt_rec comboKey_def
      elementAt_def abcState_def)

lemma plus_allElements: "allElements plusState = [''a+b'', ''c'']"
  by (simp add: allElements_def plusState_def)

text \<open>
  C3 (amended). When no element identifier contains the character \<open>+\<close>,
  \<open>getUntriedCombos\<close> returns (and does not panic), in the order of the sorted list
  of the distinct identifiers, exactly the pairs of positions \<open>i \<le> j\<close> of that list
  (self-pairs included) for which neither \<open>i+j\<close> nor \<open>j+i\<close> is a key of the recipe
  table or a member of the impossibility list, each rendered as the two display names
  joined by \<open>" + "\<close>. For the catalogue A, B, C with recipe A+B=D and impossibility
  A+C this is A+A, B+B, B+C, C+C.
\<close>

theorem getUntriedCombos_spec:
  assumes "finite (dom (Elements gs))"
    and "\<forall>k \<in> dom (Elements gs). CHR ''+'' \<notin> set k"
  shows "getUntriedCombos gs = Some (untriedCombinations_spec gs)
         \<and> sorted (allElements gs) \<and> distinct (allElements gs)
         \<and> set (allElements gs) = dom (Elements gs)"
proof -
  have keys: "set (allElements gs) = dom (Elements gs)"
    using assms(1) by (simp add: allElements_def)
  with assms(2) have "\<forall>y \<in> set (allElements gs). CHR ''+'' \<notin> set y"
    by simp
  then have "outerLoop gs (allElements gs) [] = Some ([] @ triangle (emit gs) (allElements gs))"
    by (rule outerLoop_triangle)
  then have "getUntriedCombos gs = Some (untriedCombinations_spec gs)"
    by (simp add: getUntriedCombos_def untriedCombinations_spec_triangle)
  moreover have "sorted (allElements gs)" and "distinct (allElements gs)"
    by (simp_all add: allElements_def)
  ultimately show ?thesis using keys by simp
qed

theorem getUntriedCombos_spec_witness:
  "getUntriedCombos abcState
     = Some [''Air + Air'', ''Bog + Bog'', ''Bog + Clay'', ''Clay + Clay'']
   \<and> allElements abcState = [''A'', ''B'', ''C'']"
proof -
  have d: "dom (Elements abcState) = {''A'', ''B'', ''C''}"
    by (auto simp: abcState_def)
  have f: "finite (dom (Elements abcState))"
    by (simp add: d)
  have p: "\<forall>k \<in> dom (Elements abcState). CHR ''+'' \<notin> set k"
    by (simp add: d)
  from getUntriedCombos_spec [OF f p] show ?thesis
    by (simp add: abc_spec abc_allElements)
qed

theorem getUntriedCombos_counterexample:
  "getUntriedCombos plusState = Some [''AB + AB'', ''AB + C'', ''C + C'']
   \<and> allElements plusState = [''a+b'', ''c'']
   \<and> comboLine plusState ''a+b'' ''c'' = ''AB + C''
   \<and> comboKey ''c'' ''a+b'' \<in> set (Impossible plusState)
   \<and> untriedCombinations_spec plusState = [''AB + AB'', ''C + C'']"
proof -
  have "getUntriedCombos plusState = Some [''AB + AB'', ''AB + C'', ''C + C'']"
    by (simp add: getUntriedCombos_def plus_allElements)
       (simp add: plusState_def comboKey_def isImpossible_def comboLine_def elementAt_def)
  moreover have "comboLine plusState ''a+b'' ''c'' = ''AB + C''"
    by (simp add: plusState_def comboLine_def elementAt_def)
  moreover have "comboKey ''c'' ''a+b'' \<in> set (Impossible plusState)"
    by (simp add: plusState_def comboKey_def)
  moreover have "untriedCombinations_spec plusState = [''AB + AB'', ''C + C'']"
    using plus_allElements
    by (simp add: untriedCombinations_spec_def allElements_def upt_rec comboKey_def
        elementAt_def plusState_def)
  ultimately show ?thesis using plus_allElements by simp
qed

section \<open>Loading\<close>

lemma loadCatalogDev_isl:
  "isl (loadCatalogDev env) \<longleftrightarrow>
     \<not> (isLoaded (fileElements env) \<and> isLoaded (fileRecipes env) \<and> isLoaded (fileImpossible env))"
  by (auto simp: loadCatalogDev_def isLoaded_def split: source.splits)

lemma loadCatalogEmbedded_isl:
  "isl (loadCatalogEmbedded env) \<longleftrightarrow>
     \<not> (isLoaded (embeddedElements env) \<and> isLoaded (embeddedRecipes env)
        \<and> isLoaded (embeddedImpossible env))"
  by (auto simp: loadCatalogEmbedded_def isLoaded_def split: source.splits)

lemma catalog_isl:
  "isl (if dev then loadCatalogDev env else loadCatalogEmbedded env) \<longleftrightarrow> \<not> catalogLoaded env dev"
  by (simp add: catalogLoaded_def loadCatalogDev_isl loadCatalogEmbedded_isl)

lemma loadGameState_isl:
  "isl (loadGameState env dev) \<longleftrightarrow> \<not> catalogLoaded env dev \<or> \<not> progressPathOk env"
  using catalog_isl [of dev env]
  by (cases "if dev then loadCatalogDev env else loadCatalogEmbedded env")
     (auto simp: loadGameState_def Let_def split: prod.splits)

lemma loadGameState_Discovered:
  "loadGameState env dev = Inr (gs, saved) \<Longrightarrow>
   Discovered gs = (if readDiscovered (progressFile env) = [] then bootstrap
                    else readDiscovered (progressFile env))"
  by (auto simp: loadGameState_def Let_def split: sum.splits prod.splits if_splits)

lemma getUserGameState_Discovered:
  "gameStates userID = None \<Longrightarrow>
   getUserGameState env gameStates userID = (cache, Inr gs, saved) \<Longrightarrow>
   Discovered gs = (if readDiscovered (telegramFile env userID) = [] then bootstrap
                    else readDiscovered (telegramFile env userID))"
  by (auto simp: getUserGameState_def Let_def split: source.splits if_splits)

lemma okEnv_load:
  "loadGameState okEnv False =
     Inr (\<lparr>Elements = Elements steamState, Recipes = Recipes steamState,
           Discovered = bootstrap, Impossible = []\<rparr>, Some bootstrap)"
  by (simp add: loadGameState_def loadCatalogEmbedded_def okEnv_def readDiscovered_def)

lemma okEnv_user:
  "getUserGameState okEnv Map.empty 7 =
     ([7 \<mapsto> \<lparr>Elements = Elements steamState, Recipes = Recipes steamState,
              Discovered = bootstrap, Impossible = []\<rparr>],
      Inr \<lparr>Elements = Elements steamState, Recipes = Recipes steamState,
           Discovered = bootstrap, Impossible = []\<rparr>, Some bootstrap)"
  by (simp add: getUserGameState_def okEnv_def readDiscovered_def Let_def)

lemma okEnv_catalogLoaded: "catalogLoaded okEnv False" "catalogLoaded noPathEnv False"
  by (simp_all add: catalogLoaded_def isLoaded_def okEnv_def noPathEnv_def)

text \<open>
  C6 (amended). After initialisation by \<open>loadGameState\<close>, or by \<open>getUserGameState\<close>
  for an identity that is not cached, the discovered list is exactly
  \<open>water, fire, earth, wind\<close> when the list read from the persisted store is empty
  (missing, unreadable or empty store: the new player), and it is the list read,
  unchanged and unseeded, when that list is not empty.
\<close>

theorem initial_Discovered:
  "(loadGameState env dev = Inr (gs, saved) \<longrightarrow>
      Discovered gs = (if readDiscovered (progressFile env) = [] then bootstrap
                       else readDiscovered (progressFile env)))
   \<and> (gameStates userID = None
        \<and> getUserGameState env gameStates userID = (cache, Inr gs', saved') \<longrightarrow>
      Discovered gs' = (if readDiscovered (telegramFile env userID) = [] then bootstrap
                        else readDiscovered (telegramFile env userID)))"
  using loadGameState_Discovered getUserGameState_Discovered by blast

theorem initial_Discovered_witness:
  "loadGameState okEnv False =
     Inr (\<lparr>Elements = Elements steamState, Recipes = Recipes steamState,
           Discovered = [''water'', ''fire'', ''earth'', ''wind''], Impossible = []\<rparr>,
          Some [''water'', ''fire'', ''earth'', ''wind''])
   \<and> fst (snd (getUserGameState okEnv Map.empty 7)) =
     Inr \<lparr>Elements = Elements steamState, Recipes = Recipes steamState,
          Discovered = [''water'', ''fire'', ''earth'', ''wind''], Impossible = []\<rparr>"
  using initial_Discovered
    [of okEnv False
        "\<lparr>Elements = Elements steamState, Recipes = Recipes steamState,
          Discovered = bootstrap, Impossible = []\<rparr>" "Some bootstrap"
        Map.empty 7
        "[7 \<mapsto> \<lparr>Elements = Elements steamState, Recipes = Recipes steamState,
                 Discovered = bootstrap, Impossible = []\<rparr>]"
        "\<lparr>Elements = Elements steamState, Recipes = Recipes steamState,
          Discovered = bootstrap, Impossible = []\<rparr>" "Some bootstrap"]
    okEnv_load okEnv_user
  by (simp add: bootstrap_def)

theorem initial_Discovered_counterexample:
  "loadGameState steamOnlyEnv False =
     Inr (\<lparr>Elements = Elements steamState, Recipes = Recipes steamState,
           Discovered = [''steam''], Impossible = []\<rparr>, None)
   \<and> ''water'' \<notin> set [''steam'']"
  by (simp add: loadGameState_def loadCatalogEmbedded_def steamOnlyEnv_def okEnv_def
      readDiscovered_def)

text \<open>
  C7 (amended). \<open>loadGameState\<close> returns an error, and no state, exactly when a
  catalogue document of the chosen mode is missing or malformed or the path of the
  progress file cannot be resolved. What reading the progress file yields never makes it
  fail: with the catalogue loaded and the path resolved, a missing or unreadable progress
  file gives the state seeded with the bootstrap elements, which is also saved.
\<close>

theorem loadGameState_outcome:
  "(isl (loadGameState env dev) \<longleftrightarrow> \<not> catalogLoaded env dev \<or> \<not> progressPathOk env)
   \<and> (catalogLoaded env dev \<and> progressPathOk env \<and> progressFile env = ReadFailed \<longrightarrow>
        (\<exists>gs. loadGameState env dev = Inr (gs, Some bootstrap) \<and> Discovered gs = bootstrap))"
proof -
  have "\<exists>gs. loadGameState env dev = Inr (gs, Some bootstrap) \<and> Discovered gs = bootstrap"
    if ok: "catalogLoaded env dev" "progressPathOk env" and rd: "progressFile env = ReadFailed"
  proof -
    from ok have "\<not> isl (loadGameState env dev)"
      by (simp add: loadGameState_isl)
    then obtain gs saved where r: "loadGameState env dev = Inr (gs, saved)"
      by (cases "loadGameState env dev") auto
    with rd have "Discovered gs = bootstrap"
      by (simp add: loadGameState_Discovered readDiscovered_def)
    moreover from r rd have "saved = Some bootstrap"
      by (auto simp: loadGameState_def Let_def readDiscovered_def
          split: sum.splits prod.splits if_splits)
    ultimately show ?thesis using r by simp
  qed
  then show ?thesis using loadGameState_isl by blast
qed

theorem loadGameState_outcome_witness:
  "catalogLoaded okEnv False \<and> progressPathOk okEnv \<and> progressFile okEnv = ReadFailed
   \<and> \<not> isl (loadGameState okEnv False)
   \<and> (\<exists>gs. loadGameState okEnv False = Inr (gs, Some bootstrap) \<and> Discovered gs = bootstrap)"
proof -
  have h: "catalogLoaded okEnv False" "progressPathOk okEnv" "progressFile okEnv = ReadFailed"
    using okEnv_catalogLoaded(1) by (simp_all add: okEnv_def)
  with loadGameState_outcome [of okEnv False] show ?thesis
    by blast
qed

theorem loadGameState_counterexample:
  "catalogLoaded noPathEnv False \<and> loadGameState noPathEnv False = Inl PathError"
  using okEnv_catalogLoaded(2)
  by (simp add: loadGameState_def loadCatalogEmbedded_def noPathEnv_def okEnv_def)

section \<open>Normalisation\<close>

lemma ReplaceAll_no_old: "old \<noteq> new \<Longrightarrow> old \<notin> set (ReplaceAll s old new)"
  by (auto simp: ReplaceAll_def)

lemma length_ReplaceAll: "length (ReplaceAll s old new) = length s"
  by (simp add: ReplaceAll_def)

lemma ReplaceAll_fixed_iff:
  "old \<noteq> new \<Longrightarrow> ReplaceAll s old new = s \<longleftrightarrow> old \<notin> set s"
  by (induction s) (auto simp: ReplaceAll_def)

lemma isASCII_set: "isASCII s \<longleftrightarrow> (\<forall>c \<in> set s. (of_char c :: nat) < 128)"
  by (simp add: isASCII_def list_all_iff)

lemma TrimSpace_ASCII:
  assumes "isASCII s"
  shows "TrimSpace U s = trimASCII s"
proof (cases "dropWhile isSpaceByte s")
  case Nil
  show ?thesis
    unfolding TrimSpace_def trimASCII_def Let_def Nil by simp
next
  case (Cons c cs)
  have sub: "set (dropWhile isSpaceByte s) \<subseteq> set s"
    by (auto dest: set_dropWhileD)
  with Cons assms have c: "(of_char c :: nat) < 128"
    by (auto simp: isASCII_set)
  show ?thesis
  proof (cases "dropWhile isSpaceByte (rev (c # cs))")
    case none: Nil
    show ?thesis
      unfolding TrimSpace_def trimASCII_def Let_def Cons none using c by simp
  next
    case some: (Cons d ds)
    have "d \<in> set (dropWhile isSpaceByte (rev (c # cs)))"
      unfolding some by simp
    then have "d \<in> set (c # cs)"
      by (auto dest: set_dropWhileD)
    with sub Cons assms have "(of_char d :: nat) < 128"
      by (auto simp: isASCII_set)
    then show ?thesis
      unfolding TrimSpace_def trimASCII_def Let_def Cons some using c by simp
  qed
qed

lemma isASCII_trimASCII: "isASCII s \<Longrightarrow> isASCII (trimASCII s)"
  by (auto simp: isASCII_set trimASCII_def dest!: set_dropWhileD)

lemma ToLower_ASCII: "isASCII s \<Longrightarrow> ToLower U s = map toLowerByte s"
  by (simp add: ToLower_def)

lemma isSpaceByte_code: "isSpaceByte c \<longleftrightarrow> (of_char c :: nat) \<in> {9, 10, 11, 12, 13, 32}"
proof -
  have "(c = d) = ((of_char c :: nat) = of_char d)" for d
    by simp
  then show ?thesis
    unfolding isSpaceByte_def by (simp only:) simp
qed

lemma toLowerByte_val:
  "(of_char (toLowerByte c) :: nat) = (if isUpperByte c then of_char c + 32 else of_char c)"
  by (simp add: toLowerByte_def isUpperByte_def)

lemma toLowerByte_not_upper: "\<not> isUpperByte (toLowerByte c)"
  using toLowerByte_val [of c] by (auto simp: isUpperByte_def split: if_splits)

lemma toLowerByte_space: "toLowerByte c = CHR '' '' \<longleftrightarrow> c = CHR '' ''"
proof -
  have "(toLowerByte c = CHR '' '') = ((of_char (toLowerByte c) :: nat) = of_char (CHR '' ''))"
    by (simp only: of_char_eq_iff)
  also have "\<dots> = ((of_char c :: nat) = of_char (CHR '' ''))"
    by (auto simp: toLowerByte_val isUpperByte_def)
  also have "\<dots> = (c = CHR '' '')"
    by (simp only: of_char_eq_iff)
  finally show ?thesis .
qed

lemma toLowerByte_isSpace: "isSpaceByte (toLowerByte c) \<longleftrightarrow> isSpaceByte c"
  by (auto simp: isSpaceByte_code toLowerByte_val isUpperByte_def)

lemma canonByte_facts:
  "canonByte c \<noteq> CHR '' ''" "\<not> isUpperByte (canonByte c)"
  "\<not> isSpaceByte c \<Longrightarrow> \<not> isSpaceByte (canonByte c)"
proof -
  show "canonByte c \<noteq> CHR '' ''"
    by (simp add: canonByte_def toLowerByte_space)
  show "\<not> isUpperByte (canonByte c)"
    using toLowerByte_not_upper [of c] by (simp add: canonByte_def isUpperByte_def)
  show "\<not> isSpaceByte c \<Longrightarrow> \<not> isSpaceByte (canonByte c)"
    by (simp add: canonByte_def toLowerByte_isSpace) (simp add: isSpaceByte_def)
qed

lemma canonByte_ASCII: "(of_char c :: nat) < 128 \<Longrightarrow> (of_char (canonByte c) :: nat) < 128"
  using toLowerByte_val [of c] by (auto simp: canonByte_def isUpperByte_def)

lemma isASCII_canon: "isASCII m \<Longrightarrow> isASCII (map canonByte m)"
  by (auto simp: isASCII_set canonByte_ASCII)

lemma normalizeElementName_main_ASCII:
  "isASCII s \<Longrightarrow> normalizeElementName_main U s = map toLowerByte (trimASCII s)"
  by (simp add: normalizeElementName_main_def TrimSpace_ASCII ToLower_ASCII isASCII_trimASCII)

lemma normalizeElementName_ASCII:
  "isASCII s \<Longrightarrow> normalizeElementName U s = map canonByte (trimASCII s)"
  by (simp add: normalizeElementName_def TrimSpace_ASCII ToLower_ASCII isASCII_trimASCII
      ReplaceAll_def canonByte_def toLowerByte_space)

lemma last_dropWhile_nonempty:
  "dropWhile P xs \<noteq> [] \<Longrightarrow> last (dropWhile P xs) = last xs"
  by (auto intro: dropWhile_last)

lemma rev_dropWhile_takeWhile:
  "xs = rev (dropWhile P (rev xs)) @ rev (takeWhile P (rev xs))"
  by (metis rev_append rev_rev_ident takeWhile_dropWhile_id)

lemma trimASCII_split:
  "s = takeWhile isSpaceByte s @ trimASCII s
         @ rev (takeWhile isSpaceByte (rev (dropWhile isSpaceByte s)))"
proof -
  have "dropWhile isSpaceByte s
        = trimASCII s @ rev (takeWhile isSpaceByte (rev (dropWhile isSpaceByte s)))"
    unfolding trimASCII_def by (rule rev_dropWhile_takeWhile)
  moreover have "s = takeWhile isSpaceByte s @ dropWhile isSpaceByte s"
    by simp
  ultimately show ?thesis by metis
qed

lemma trimASCII_ends:
  "trimASCII s = [] \<or> \<not> isSpaceByte (hd (trimASCII s)) \<and> \<not> isSpaceByte (last (trimASCII s))"
proof (cases "trimASCII s = []")
  case True
  then show ?thesis by simp
next
  case False
  let ?t = "dropWhile isSpaceByte s"
  let ?u = "dropWhile isSpaceByte (rev ?t)"
  from False have u: "?u \<noteq> []" by (simp add: trimASCII_def)
  have t: "?t \<noteq> []"
  proof
    assume e: "?t = []"
    have "?u = []" unfolding e by simp
    with u show False by contradiction
  qed
  have "last (trimASCII s) = hd ?u"
    by (simp add: trimASCII_def last_rev)
  moreover have "\<not> isSpaceByte (hd ?u)"
    using u by (rule hd_dropWhile)
  moreover have "hd (trimASCII s) = last ?u"
    by (simp add: trimASCII_def hd_rev)
  moreover have "last ?u = last (rev ?t)"
    using u by (rule last_dropWhile_nonempty)
  moreover have "last (rev ?t) = hd ?t"
    by (simp add: last_rev)
  moreover have "\<not> isSpaceByte (hd ?t)"
    using t by (rule hd_dropWhile)
  ultimately show ?thesis by simp
qed

lemma trimASCII_fixed:
  assumes "m = [] \<or> \<not> isSpaceByte (hd m) \<and> \<not> isSpaceByte (last m)"
  shows "trimASCII m = m"
proof -
  from assms have 1: "dropWhile isSpaceByte m = m"
    by (auto simp: dropWhile_eq_self_iff)
  from assms have "dropWhile isSpaceByte (rev m) = rev m"
    by (auto simp: dropWhile_eq_self_iff hd_rev)
  with 1 show ?thesis by (simp add: trimASCII_def)
qed

lemma normalizeElementName_idem_ASCII:
  assumes "isASCII s"
  shows "normalizeElementName U (normalizeElementName U s) = normalizeElementName U s"
proof -
  let ?m = "trimASCII s"
  let ?n = "map canonByte ?m"
  have n: "normalizeElementName U s = ?n"
    using assms by (rule normalizeElementName_ASCII)
  have "isASCII ?n"
    using assms by (simp add: isASCII_canon isASCII_trimASCII)
  then have "normalizeElementName U ?n = map canonByte (trimASCII ?n)"
    by (rule normalizeElementName_ASCII)
  moreover have "?n = [] \<or> \<not> isSpaceByte (hd ?n) \<and> \<not> isSpaceByte (last ?n)"
    using trimASCII_ends [of s] by (auto simp: hd_map last_map canonByte_facts)
  then have "trimASCII ?n = ?n" by (rule trimASCII_fixed)
  moreover have "canonByte (canonByte c) = canonByte c" for c
    using canonByte_facts(1,2) [of c] by (simp add: canonByte_def [of "canonByte c"] toLowerByte_def)
  ultimately show ?thesis by (simp add: n)
qed

lemma normalize_examples:
  "normalizeElementName U '' Water'' = ''water''"
  "normalizeElementName U ''FIRE '' = ''fire''"
  "normalizeElementName U '' Hot  Water '' = ''hot--water''"
  "normalizeElementName_main U '' Hot  Water '' = ''hot  water''"
  "normalizeElementName U ''Hot Water'' = ''hot-water''"
  "normalizeElementName_main U ''Hot Water'' = ''hot water''"
proof -
  have a: "isASCII '' Water''" "isASCII ''FIRE ''" "isASCII '' Hot  Water ''"
    "isASCII ''Hot Water''"
    by code_simp+
  have "map canonByte (trimASCII '' Water'') = ''water''"
    "map canonByte (trimASCII ''FIRE '') = ''fire''"
    "map canonByte (trimASCII '' Hot  Water '') = ''hot--water''"
    "map toLowerByte (trimASCII '' Hot  Water '') = ''hot  water''"
    "map canonByte (trimASCII ''Hot Water'') = ''hot-water''"
    "map toLowerByte (trimASCII ''Hot Water'') = ''hot water''"
    by code_simp+
  with a show "normalizeElementName U '' Water'' = ''water''"
    "normalizeElementName U ''FIRE '' = ''fire''"
    "normalizeElementName U '' Hot  Water '' = ''hot--water''"
    "normalizeElementName_main U '' Hot  Water '' = ''hot  water''"
    "normalizeElementName U ''Hot Water'' = ''hot-water''"
    "normalizeElementName_main U ''Hot Water'' = ''hot water''"
    by (simp_all only: normalizeElementName_ASCII normalizeElementName_main_ASCII)
qed

text \<open>
  C9 (amended). For every input string, \<open>normalizeElementName\<close> of the current program
  returns the input passed through \<^verbatim>\<open>strings.TrimSpace\<close> and \<^verbatim>\<open>strings.ToLower\<close>
  (surrounding white space trimmed, letters lower-cased) with every space that remains
  replaced by \<open>-\<close>, so that its result holds no space. The rule is not the same
  everywhere: the function of the same name in \<^verbatim>\<open>src/main.go\<close> returns the input
  trimmed and lower-cased with its spaces kept; the result of the current program is
  that result with the spaces replaced, and the two are equal exactly when the trimmed,
  lower-cased input holds no space. On an ASCII input the trimmed string is the input
  without the white-space bytes at its two ends, the letters \<open>A\<close> to \<open>Z\<close> become
  \<open>a\<close> to \<open>z\<close>, and the result is a fixed point of the function.
\<close>

theorem normalizeElementName_forms:
  "normalizeElementName_main U s = ToLower U (TrimSpace U s)
   \<and> normalizeElementName U s = ReplaceAll (normalizeElementName_main U s) (CHR '' '') (CHR ''-'')
   \<and> length (normalizeElementName U s) = length (normalizeElementName_main U s)
   \<and> CHR '' '' \<notin> set (normalizeElementName U s)
   \<and> (normalizeElementName_main U s = normalizeElementName U s
        \<longleftrightarrow> CHR '' '' \<notin> set (normalizeElementName_main U s))
   \<and> (isASCII s \<longrightarrow>
        (\<exists>l m r. s = l @ m @ r \<and> list_all isSpaceByte l \<and> list_all isSpaceByte r
            \<and> (m = [] \<or> \<not> isSpaceByte (hd m) \<and> \<not> isSpaceByte (last m))
            \<and> normalizeElementName U s = map canonByte m
            \<and> normalizeElementName_main U s = map toLowerByte m)
        \<and> normalizeElementName U (normalizeElementName U s) = normalizeElementName U s)"
proof -
  have ne: "CHR '' '' \<noteq> CHR ''-''"
    by simp
  have rel: "normalizeElementName U s
             = ReplaceAll (normalizeElementName_main U s) (CHR '' '') (CHR ''-'')"
    by (simp add: normalizeElementName_def normalizeElementName_main_def)
  have len: "length (normalizeElementName U s) = length (normalizeElementName_main U s)"
    by (simp only: rel length_ReplaceAll)
  have nosp: "CHR '' '' \<notin> set (normalizeElementName U s)"
    unfolding rel using ne by (rule ReplaceAll_no_old)
  have agree: "normalizeElementName_main U s = normalizeElementName U s
                 \<longleftrightarrow> CHR '' '' \<notin> set (normalizeElementName_main U s)"
    using ReplaceAll_fixed_iff [OF ne, of "normalizeElementName_main U s"]
    unfolding rel by auto
  have ascii: "(\<exists>l m r. s = l @ m @ r \<and> list_all isSpaceByte l \<and> list_all isSpaceByte r
            \<and> (m = [] \<or> \<not> isSpaceByte (hd m) \<and> \<not> isSpaceByte (last m))
            \<and> normalizeElementName U s = map canonByte m
            \<and> normalizeElementName_main U s = map toLowerByte m)
        \<and> normalizeElementName U (normalizeElementName U s) = normalizeElementName U s"
    if a: "isASCII s"
  proof -
    let ?l = "takeWhile isSpaceByte s"
    let ?r = "rev (takeWhile isSpaceByte (rev (dropWhile isSpaceByte s)))"
    have "s = ?l @ trimASCII s @ ?r"
      by (rule trimASCII_split)
    moreover have "list_all isSpaceByte ?l" and "list_all isSpaceByte ?r"
      by (auto simp: list_all_iff dest: set_takeWhileD)
    moreover note trimASCII_ends [of s]
    moreover have "normalizeElementName U s = map canonByte (trimASCII s)"
      using a by (rule normalizeElementName_ASCII)
    moreover have "normalizeElementName_main U s = map toLowerByte (trimASCII s)"
      using a by (rule normalizeElementName_main_ASCII)
    ultimately have "\<exists>l m r. s = l @ m @ r \<and> list_all isSpaceByte l \<and> list_all isSpaceByte r
            \<and> (m = [] \<or> \<not> isSpaceByte (hd m) \<and> \<not> isSpaceByte (last m))
            \<and> normalizeElementName U s = map canonByte m
            \<and> normalizeElementName_main U s = map toLowerByte m"
      by blast
    then show ?thesis
      using normalizeElementName_idem_ASCII [OF a] by blast
  qed
  have "normalizeElementName_main U s = ToLower U (TrimSpace U s)"
    by (simp add: normalizeElementName_main_def)
  with rel len nosp agree ascii show ?thesis
    by blast
qed

theorem normalizeElementName_forms_witness:
  "isASCII '' Hot  Water ''
   \<and> normalizeElementName anyUnicode '' Hot  Water '' = ''hot--water''
   \<and> normalizeElementName anyUnicode ''hot--water'' = ''hot--water''
   \<and> normalizeElementName_main anyUnicode '' Hot  Water '' = ''hot  water''
   \<and> CHR '' '' \<notin> set (normalizeElementName anyUnicode '' Hot  Water '')"
proof -
  have a: "isASCII '' Hot  Water ''"
    by code_simp
  from normalizeElementName_forms [of anyUnicode "'' Hot  Water ''"] a
  have "normalizeElementName anyUnicode (normalizeElementName anyUnicode '' Hot  Water '')
          = normalizeElementName anyUnicode '' Hot  Water ''"
    and "CHR '' '' \<notin> set (normalizeElementName anyUnicode '' Hot  Water '')"
    by blast+
  with a show ?thesis
    by (simp add: normalize_examples)
qed

theorem normalizeElementName_counterexample:
  "normalizeElementName_main anyUnicode ''Hot Water'' = ''hot water''
   \<and> normalizeElementName anyUnicode ''Hot Water'' = ''hot-water''"
  by (simp only: normalize_examples)

section \<open>The HTTP combine handler\<close>

text \<open>
  C8. For a GET request the handler answers from the recipe table alone. With \<open>a\<close> and
  \<open>b\<close> the normalised query identifiers, the answer reports success exactly when a
  recipe is stored under \<open>a+b\<close> or \<open>b+a\<close>; on success its result is the display name
  of the element stored under \<open>a+b\<close>, or under \<open>b+a\<close> when \<open>a+b\<close> is absent; otherwise
  it reports failure with the message that the elements cannot be combined. The answer
  does not depend on the discovered list, and the state is returned unchanged.
\<close>

theorem handleCombineAPI_lookup:
  assumes "Method r = ''GET''"
  shows "fst (handleCombineAPI U gs r) = gs
    \<and> snd (handleCombineAPI U (gs\<lparr>Discovered := d\<rparr>) r) = snd (handleCombineAPI U gs r)
    \<and> (\<exists>resp. snd (handleCombineAPI U gs r) = Body resp
         \<and> (Success resp \<longleftrightarrow>
              comboKey (normalizeElementName U (queryGet r ''element-one''))
                       (normalizeElementName U (queryGet r ''element-two'')) \<in> dom (Recipes gs)
              \<or> comboKey (normalizeElementName U (queryGet r ''element-two''))
                          (normalizeElementName U (queryGet r ''element-one'')) \<in> dom (Recipes gs))
         \<and> (Success resp \<longrightarrow>
              (\<exists>res. Result resp = Name (elementAt gs res)
                 \<and> (Recipes gs (comboKey (normalizeElementName U (queryGet r ''element-one''))
                       (normalizeElementName U (queryGet r ''element-two''))) = Some res
                    \<or> Recipes gs (comboKey (normalizeElementName U (queryGet r ''element-one''))
                       (normalizeElementName U (queryGet r ''element-two''))) = None
                      \<and> Recipes gs (comboKey (normalizeElementName U (queryGet r ''element-two''))
                       (normalizeElementName U (queryGet r ''element-one''))) = Some res)))
         \<and> (\<not> Success resp \<longrightarrow>
              Result resp = '''' \<and> Error resp = ''These elements cannot be combined''))"
  using assms
  by (auto simp: handleCombineAPI_def Let_def elementAt_def split: option.splits)

theorem handleCombineAPI_lookup_witness:
  "Method waterFireRequest = ''GET''
   \<and> handleCombineAPI anyUnicode (steamState\<lparr>Discovered := []\<rparr>) waterFireRequest
       = (steamState\<lparr>Discovered := []\<rparr>,
          Body \<lparr>Success = True, Result = ''Steam'', Error = ''''\<rparr>)"
proof -
  have g: "Method waterFireRequest = ''GET''"
    by (simp add: waterFireRequest_def)
  have q: "queryGet waterFireRequest ''element-one'' = '' Water''"
    "queryGet waterFireRequest ''element-two'' = ''FIRE ''"
    by (simp_all add: queryGet_def waterFireRequest_def)
  have "snd (handleCombineAPI anyUnicode (steamState\<lparr>Discovered := []\<rparr>) waterFireRequest)
          = Body \<lparr>Success = True, Result = ''Steam'', Error = ''''\<rparr>"
    by (simp add: handleCombineAPI_def g q normalize_examples comboKey_def steamState_def
        elementAt_def Let_def)
  moreover from handleCombineAPI_lookup [OF g, of anyUnicode "steamState\<lparr>Discovered := []\<rparr>"]
  have "fst (handleCombineAPI anyUnicode (steamState\<lparr>Discovered := []\<rparr>) waterFireRequest)
          = steamState\<lparr>Discovered := []\<rparr>"
    by blast
  ultimately show ?thesis using g
    by (simp add: prod_eq_iff)
qed

end
